theory Spec2Isabelle
  imports Complex_Main "HOL-Library.Sublist" "HOL-Library.Multiset"
begin

section \<open>Double-precision numbers\<close>

text \<open>
  A Python \<^verbatim>\<open>float\<close> is an IEEE 754 double: a real number \<open>m * 2 ^ (e - 52)\<close> with an integer
  \<open>m\<close> of magnitude below \<open>2 ^ 53\<close> and an exponent \<open>e\<close> from \<open>-1022\<close> to \<open>1023\<close>, or one of the two
  infinities, or \<^verbatim>\<open>nan\<close>. Negative zero is not told apart from zero.
\<close>

datatype float = Finite real | PosInf | NegInf | NaN

text \<open>
  \<^verbatim>\<open>n.bit_length()\<close>, and with it the exponent of the leading bit of a real number other
  than zero: \<open>2 ^ e \<le> \<bar>x\<bar> < 2 ^ (e + 1)\<close>.
\<close>

fun bit_length :: "nat \<Rightarrow> nat" where
  "bit_length n = (if n = 0 then 0 else Suc (bit_length (n div 2)))"

declare bit_length.simps [simp del]

definition exponent :: "real \<Rightarrow> int" where
  "exponent x =
     (if 1 \<le> \<bar>x\<bar> then int (bit_length (nat \<lfloor>\<bar>x\<bar>\<rfloor>)) - 1
      else - int (bit_length (nat (\<lceil>1 / \<bar>x\<bar>\<rceil> - 1))))"

definition pow2 :: "int \<Rightarrow> real" where
  "pow2 k = (if 0 \<le> k then 2 ^ nat k else 1 / 2 ^ nat (- k))"

text \<open>
  Rounding to the nearest double, to the one with the even last digit on a tie. The last
  digit of a double with leading exponent \<open>e\<close> is worth \<open>2 ^ (e - 52)\<close>, and \<open>2 ^ (- 1074)\<close> below
  the normal range. What rounds to \<open>2 ^ 1024\<close> or lies beyond it becomes an infinity.
\<close>

definition round_half_even :: "real \<Rightarrow> int" where
  "round_half_even q =
     (let f = \<lfloor>q\<rfloor>; r = q - of_int f in
      if r < 1 / 2 then f else if 1 / 2 < r then f + 1 else if even f then f else f + 1)"

definition round_double :: "real \<Rightarrow> float" where
  "round_double x =
     (if x = 0 then Finite 0
      else if 2 ^ 1024 \<le> \<bar>x\<bar> then (if x < 0 then NegInf else PosInf)
      else
        (let ulp = pow2 (max (exponent x) (- 1022) - 52);
             m = real_of_int (round_half_even (\<bar>x\<bar> / ulp)) * ulp in
         if 2 ^ 1024 \<le> m then (if x < 0 then NegInf else PosInf)
         else Finite (sgn x * m)))"


fun fneg :: "float \<Rightarrow> float" where
  "fneg (Finite x) = Finite (- x)"
| "fneg PosInf = NegInf"
| "fneg NegInf = PosInf"
| "fneg NaN = NaN"

fun fmul :: "float \<Rightarrow> float \<Rightarrow> float" where
  "fmul (Finite x) (Finite y) = round_double (x * y)"
| "fmul NaN b = NaN"
| "fmul a NaN = NaN"
| "fmul (Finite x) b = (if x = 0 then NaN else if 0 < x then b else fneg b)"
| "fmul a (Finite y) = (if y = 0 then NaN else if 0 < y then a else fneg a)"
| "fmul PosInf b = b"
| "fmul NegInf b = fneg b"






section \<open>Python values, exceptions and results\<close>

text \<open>
  The services of \<^verbatim>\<open>fastpi\<close> work on what \<^verbatim>\<open>response.json()\<close> hands them. A decoded JSON
  document is a value of \<open>json\<close>: Python's \<^verbatim>\<open>None\<close> is \<open>JNull\<close>, an \<^verbatim>\<open>int\<close> of any size is
  \<open>JInt\<close>, a \<^verbatim>\<open>float\<close> is \<open>JFloat\<close>, a \<^verbatim>\<open>dict\<close> is an association list read with
  \<open>map_of\<close>.
\<close>

datatype json =
    JNull
  | JBool bool
  | JInt int
  | JFloat float
  | JStr string
  | JList "json list"
  | JObj "(string \<times> json) list"

text \<open>Every exception carries the text that \<^verbatim>\<open>str(exc)\<close> prints.\<close>

datatype error =
    HTTPError string
  | ValueError string
  | TypeError string
  | AttributeError string
  | KeyError string
  | IndexError string
  | OverflowError string
  | ValidationError string

fun str_of_error :: "error \<Rightarrow> string" where
  "str_of_error (HTTPError m) = m"
| "str_of_error (ValueError m) = m"
| "str_of_error (TypeError m) = m"
| "str_of_error (AttributeError m) = m"
| "str_of_error (KeyError m) = m"
| "str_of_error (IndexError m) = m"
| "str_of_error (OverflowError m) = m"
| "str_of_error (ValidationError m) = m"

definition bind_res :: "error + 'a \<Rightarrow> ('a \<Rightarrow> error + 'b) \<Rightarrow> error + 'b" where
  "bind_res m f = (case m of Inl e \<Rightarrow> Inl e | Inr x \<Rightarrow> f x)"

text \<open>Truthiness, as \<^verbatim>\<open>if x\<close> and \<^verbatim>\<open>not x\<close> read it.\<close>

fun truthy :: "json \<Rightarrow> bool" where
  "truthy JNull = False"
| "truthy (JBool b) = b"
| "truthy (JInt n) = (n \<noteq> 0)"
| "truthy (JFloat r) = (r \<noteq> Finite 0)"
| "truthy (JStr s) = (s \<noteq> [])"
| "truthy (JList xs) = (xs \<noteq> [])"
| "truthy (JObj kvs) = (kvs \<noteq> [])"

text \<open>
  \<^verbatim>\<open>obj.get(key, default)\<close>: only a dict has the method; on every other value the attribute
  lookup raises \<^verbatim>\<open>AttributeError\<close>.
\<close>

fun py_get :: "json \<Rightarrow> string \<Rightarrow> json \<Rightarrow> error + json" where
  "py_get (JObj kvs) k d = Inr (case map_of kvs k of None \<Rightarrow> d | Some v \<Rightarrow> v)"
| "py_get v k d = Inl (AttributeError ''object has no attribute get'')"

text \<open>\<^verbatim>\<open>key in obj\<close> for a string key.\<close>

fun py_contains :: "string \<Rightarrow> json \<Rightarrow> error + bool" where
  "py_contains k (JObj kvs) = Inr (k \<in> fst ` set kvs)"
| "py_contains k (JStr s) =
     Inr (list_ex (\<lambda>i. take (length k) (drop i s) = k) [0 ..< Suc (length s)])"
| "py_contains k (JList xs) = Inr (JStr k \<in> set xs)"
| "py_contains k v = Inl (TypeError ''argument is not iterable'')"

text \<open>\<^verbatim>\<open>obj[0]\<close>.\<close>

fun py_index0 :: "json \<Rightarrow> error + json" where
  "py_index0 (JList []) = Inl (IndexError ''list index out of range'')"
| "py_index0 (JList (x # xs)) = Inr x"
| "py_index0 (JStr []) = Inl (IndexError ''string index out of range'')"
| "py_index0 (JStr (c # cs)) = Inr (JStr [c])"
| "py_index0 (JObj kvs) = Inl (KeyError ''0'')"
| "py_index0 v = Inl (TypeError ''object is not subscriptable'')"

text \<open>\<^verbatim>\<open>for entry in obj\<close>: the values the loop visits, in order.\<close>

fun py_iter :: "json \<Rightarrow> error + json list" where
  "py_iter (JList xs) = Inr xs"
| "py_iter (JObj kvs) = Inr (map (\<lambda>kv. JStr (fst kv)) kvs)"
| "py_iter (JStr s) = Inr (map (\<lambda>c. JStr [c]) s)"
| "py_iter v = Inl (TypeError ''object is not iterable'')"

text \<open>
  \<^verbatim>\<open>str.upper()\<close> on ASCII text; the endpoint admits symbols over \<^verbatim>\<open>[A-Z0-9]\<close> only.
\<close>

definition upper_char :: "char \<Rightarrow> char" where
  "upper_char c =
     (let n = (of_char c :: nat) in if 97 \<le> n \<and> n \<le> 122 then char_of (n - 32) else c)"

definition upper :: "string \<Rightarrow> string" where
  "upper s = map upper_char s"

text \<open>\<^verbatim>\<open>value.upper()\<close> on a decoded value: only a \<^verbatim>\<open>str\<close> has the method.\<close>

fun py_upper :: "json \<Rightarrow> error + string" where
  "py_upper (JStr s) = Inr (upper s)"
| "py_upper v = Inl (AttributeError ''object has no attribute upper'')"

section \<open>Numeric coercion\<close>

text \<open>
  \<^verbatim>\<open>float(value)\<close>. Parsing a string is the interpreter's: \<open>pf\<close> gives the parsed double, or
  \<open>None\<close> where \<^verbatim>\<open>float\<close> raises \<^verbatim>\<open>ValueError\<close>. A \<^verbatim>\<open>bool\<close> is an \<^verbatim>\<open>int\<close>. An \<^verbatim>\<open>int\<close> converts by
  rounding to the nearest double, and one that rounds beyond the largest double, that
  is one of magnitude \<open>2 ^ 1024 - 2 ^ 970\<close> or more, raises \<^verbatim>\<open>OverflowError\<close>.
\<close>

definition float_overflow_bound :: int where
  "float_overflow_bound = 2 ^ 1024 - 2 ^ 970"

fun py_float :: "(string \<Rightarrow> float option) \<Rightarrow> json \<Rightarrow> error + float" where
  "py_float pf JNull = Inl (TypeError ''float() argument must be a string or a real number'')"
| "py_float pf (JBool b) = Inr (Finite (if b then 1 else 0))"
| "py_float pf (JInt n) =
     (if \<bar>n\<bar> < float_overflow_bound then Inr (round_double (real_of_int n))
      else Inl (OverflowError ''int too large to convert to float''))"
| "py_float pf (JFloat r) = Inr r"
| "py_float pf (JStr s) =
     (case pf s of
        Some r \<Rightarrow> Inr r
      | None \<Rightarrow> Inl (ValueError (''could not convert string to float: '' @ s)))"
| "py_float pf (JList xs) =
     Inl (TypeError ''float() argument must be a string or a real number'')"
| "py_float pf (JObj kvs) =
     Inl (TypeError ''float() argument must be a string or a real number'')"

text \<open>
  \<^verbatim>\<open>_to_float\<close>: the \<^verbatim>\<open>except\<close> clause names \<^verbatim>\<open>TypeError\<close> and \<^verbatim>\<open>ValueError\<close>; any other
  exception leaves the function.
\<close>

definition to_float :: "(string \<Rightarrow> float option) \<Rightarrow> json \<Rightarrow> error + float option" where
  "to_float pf v =
     (if v = JNull \<or> v = JStr [] then Inr None
      else (case py_float pf v of
              Inr r \<Rightarrow> Inr (Some r)
            | Inl (TypeError m) \<Rightarrow> Inr None
            | Inl (ValueError m) \<Rightarrow> Inr None
            | Inl e \<Rightarrow> Inl e))"

section \<open>Market data\<close>

subsection \<open>Models (\<^verbatim>\<open>models/market.py\<close>)\<close>

type_synonym datetime = int

record MarketPricePoint =
  source :: string
  symbol :: string
  price :: "float option"
  change_24h :: "float option"
  volume_24h :: "float option"
  raw :: json

record MarketAggregate =
  base_symbol :: string
  quote_symbol :: string
  symbol :: string
  timestamp :: datetime
  prices :: "MarketPricePoint list"



subsection \<open>Service (\<^verbatim>\<open>services/market.py\<close>)\<close>

record Settings =
  binance_base_url :: string
  bybit_base_url :: string
  coincap_base_url :: string
  coincap_api_key :: "string option"

text \<open>
  The HTTP client, as the providers use it: \<^verbatim>\<open>client.get(url, params, headers)\<close>, then
  \<^verbatim>\<open>raise_for_status()\<close>, then \<^verbatim>\<open>response.json()\<close>. Either an exception leaves these three
  calls or the decoded payload comes back.
\<close>

type_synonym client =
  "string \<Rightarrow> (string \<times> string) list \<Rightarrow> (string \<times> string) list option \<Rightarrow> error + json"

definition fetch_binance ::
  "Settings \<Rightarrow> client \<Rightarrow> (string \<Rightarrow> float option) \<Rightarrow> string \<Rightarrow> string
     \<Rightarrow> error + MarketPricePoint" where
  "fetch_binance st cl pf base quote =
     (let symbol = base @ quote;
          url = binance_base_url st @ ''/api/v3/ticker/24hr'' in
      bind_res (cl url [(''symbol'', symbol)] None) (\<lambda>payload.
      bind_res (py_get payload ''lastPrice'' JNull) (\<lambda>v1.
      bind_res (to_float pf v1) (\<lambda>price.
      bind_res (py_get payload ''priceChangePercent'' JNull) (\<lambda>v2.
      bind_res (to_float pf v2) (\<lambda>change.
      bind_res (py_get payload ''quoteVolume'' JNull) (\<lambda>v3.
      bind_res (to_float pf v3) (\<lambda>volume.
      Inr \<lparr>source = ''binance'', symbol = symbol, price = price,
           change_24h = change, volume_24h = volume, raw = payload\<rparr>))))))))"

definition fetch_bybit ::
  "Settings \<Rightarrow> client \<Rightarrow> (string \<Rightarrow> float option) \<Rightarrow> string \<Rightarrow> string
     \<Rightarrow> error + MarketPricePoint" where
  "fetch_bybit st cl pf base quote =
     (let symbol = base @ quote;
          url = bybit_base_url st @ ''/v5/market/tickers'';
          params = [(''category'', ''spot''), (''symbol'', symbol)] in
      bind_res (cl url params None) (\<lambda>payload.
      bind_res (py_get payload ''result'' (JObj [])) (\<lambda>result.
      bind_res (py_get result ''list'' (JList [])) (\<lambda>items.
      bind_res (if truthy items then py_index0 items else Inr JNull) (\<lambda>first.
      if \<not> truthy first
      then Inl (ValueError (''Bybit returned no ticker data for '' @ symbol))
      else
      bind_res (py_get first ''lastPrice'' JNull) (\<lambda>v1.
      bind_res (to_float pf v1) (\<lambda>price.
      bind_res (py_contains ''price24hPcnt'' first) (\<lambda>has_pct.
      bind_res
        (if has_pct
         then bind_res (py_get first ''price24hPcnt'' JNull) (\<lambda>v2.
              bind_res (to_float pf v2) (\<lambda>pct.
              Inr (case pct of Some p \<Rightarrow> Some (fmul p (Finite 100)) | None \<Rightarrow> None)))
         else Inr None) (\<lambda>change.
      bind_res (py_get first ''turnover24h'' JNull) (\<lambda>v3.
      bind_res (to_float pf v3) (\<lambda>volume.
      Inr \<lparr>source = ''bybit'', symbol = symbol, price = price,
           change_24h = change, volume_24h = volume, raw = first\<rparr>)))))))))))"

text \<open>\<^verbatim>\<open>entry.get("symbol", "").upper()\<close>.\<close>

definition symbol_upper :: "json \<Rightarrow> error + string" where
  "symbol_upper entry = bind_res (py_get entry ''symbol'' (JStr [])) py_upper"

text \<open>The \<^verbatim>\<open>for entry in data\<close> loop of \<^verbatim>\<open>_fetch_coincap\<close>, leaving at the first match.\<close>

fun find_match :: "string \<Rightarrow> json list \<Rightarrow> error + json option" where
  "find_match base_upper [] = Inr None"
| "find_match base_upper (entry # rest) =
     (case symbol_upper entry of
        Inl e \<Rightarrow> Inl e
      | Inr u \<Rightarrow> if u = base_upper then Inr (Some entry) else find_match base_upper rest)"

text \<open>The asset \<^verbatim>\<open>_fetch_coincap\<close> settles on: the match, else \<^verbatim>\<open>data[0]\<close>, else the error.\<close>

definition select_asset :: "string \<Rightarrow> json \<Rightarrow> error + json" where
  "select_asset base data =
     bind_res (py_iter data) (\<lambda>entries.
     bind_res (find_match (upper base) entries) (\<lambda>found.
     bind_res
       (if found = None \<and> truthy data then bind_res (py_index0 data) (\<lambda>d0. Inr (Some d0))
        else Inr found) (\<lambda>match.
     case match of
       None \<Rightarrow> Inl (ValueError (''CoinCap returned no asset data for '' @ base))
     | Some m \<Rightarrow> Inr m)))"

definition fetch_coincap ::
  "Settings \<Rightarrow> client \<Rightarrow> (string \<Rightarrow> float option) \<Rightarrow> string \<Rightarrow> string
     \<Rightarrow> error + MarketPricePoint" where
  "fetch_coincap st cl pf base quote =
     (let url = coincap_base_url st @ ''/assets'';
          headers =
            (case coincap_api_key st of
               None \<Rightarrow> None
             | Some k \<Rightarrow> if k = [] then None else Some [(''Authorization'', ''Bearer '' @ k)]) in
      bind_res (cl url [(''search'', base)] headers) (\<lambda>payload.
      bind_res (py_get payload ''data'' (JList [])) (\<lambda>data.
      bind_res (select_asset base data) (\<lambda>match.
      bind_res (py_get match ''priceUsd'' JNull) (\<lambda>v1.
      bind_res (to_float pf v1) (\<lambda>price.
      bind_res (py_get match ''changePercent24Hr'' JNull) (\<lambda>v2.
      bind_res (to_float pf v2) (\<lambda>change.
      bind_res (py_get match ''volumeUsd24Hr'' JNull) (\<lambda>v3.
      bind_res (to_float pf v3) (\<lambda>volume.
      Inr \<lparr>source = ''coincap'', symbol = base @ quote, price = price,
           change_24h = change, volume_24h = volume, raw = match\<rparr>))))))))))"

text \<open>
  \<^verbatim>\<open>fetch_symbol\<close>: \<^verbatim>\<open>asyncio.gather(..., return_exceptions=True)\<close> hands back, in the order
  of the task list, either what a task returned or the exception that left it. The
  clock reading is the parameter \<open>now\<close>.
\<close>

definition error_point :: "string \<Rightarrow> error \<Rightarrow> MarketPricePoint" where
  "error_point s e =
     \<lparr>source = ''error'', symbol = s, price = None, change_24h = None,
      volume_24h = None, raw = JObj [(''message'', JStr (str_of_error e))]\<rparr>"

definition fetch_symbol ::
  "Settings \<Rightarrow> client \<Rightarrow> (string \<Rightarrow> float option) \<Rightarrow> datetime \<Rightarrow> string \<Rightarrow> string
     \<Rightarrow> MarketAggregate" where
  "fetch_symbol st cl pf now base_in quote_in =
     (let base = upper base_in;
          quote = upper quote_in;
          symbol = base @ quote;
          results = [fetch_binance st cl pf base quote,
                     fetch_bybit st cl pf base quote,
                     fetch_coincap st cl pf base quote];
          price_points =
            map (\<lambda>result. case result of Inr p \<Rightarrow> p | Inl e \<Rightarrow> error_point symbol e) results in
      \<lparr>base_symbol = base, quote_symbol = quote, symbol = symbol, timestamp = now,
       prices = price_points\<rparr>)"

section \<open>News\<close>

subsection \<open>Models (\<^verbatim>\<open>models/news.py\<close>)\<close>

text \<open>
  \<^verbatim>\<open>NewsArticle.url\<close> is declared \<^verbatim>\<open>HttpUrl\<close>. The settings module builds on
  \<^verbatim>\<open>pydantic_settings\<close>, so the models are pydantic 2 models: a validated \<^verbatim>\<open>HttpUrl\<close> field
  holds a URL object, not a \<^verbatim>\<open>str\<close>, and \<^verbatim>\<open>str(url)\<close> gives its normalised text. \<open>HttpUrl u\<close>
  is the object whose text is \<open>u\<close>.
\<close>

datatype HttpUrl = HttpUrl (str_url: string)

text \<open>
  What a \<^verbatim>\<open>set\<close> of the scraper may be asked about: a \<^verbatim>\<open>str\<close> or a URL object. A URL
  object compares equal to URL objects only, so it is never equal to a \<^verbatim>\<open>str\<close>; the two
  constructors keep them apart.
\<close>

datatype pyobj = Str string | Url HttpUrl

record NewsArticle =
  source :: string
  title :: string
  url :: HttpUrl
  published_at :: "datetime option"
  summary :: "string option"
  metadata :: "(string \<times> json) list"

record NewsFeed =
  source :: string
  fetched_at :: datetime
  items :: "NewsArticle list"

record NewsAggregate =
  fetched_at :: datetime
  feeds :: "NewsFeed list"

subsection \<open>Documents, as the scraper queries them\<close>

text \<open>
  The scraper sees a parsed document through a handful of queries. An \<open>Anchor\<close> is an
  \<^verbatim>\<open>a\<close> tag: \<^verbatim>\<open>anchor.get("href")\<close> and \<^verbatim>\<open>anchor.get_text(strip=True)\<close>. An \<open>Element\<close> is an
  \<^verbatim>\<open>article\<close> tag: \<open>find_a\<close> is \<^verbatim>\<open>element.find("a", href=True)\<close>, the href and the stripped
  text of the first anchor that has the attribute; \<open>find_p\<close> is the stripped text of
  \<^verbatim>\<open>element.find("p")\<close>; \<open>find_time\<close> is \<^verbatim>\<open>element.find("time")\<close>. A \<open>Soup\<close> is an HTML page:
  \<^verbatim>\<open>soup.find_all("article")\<close> and \<^verbatim>\<open>soup.select("h2 a, h3 a, .headline a")\<close>. An \<open>RssEntry\<close>
  is an \<^verbatim>\<open>item\<close> of the feed, with the stripped text of each child the loop looks for.
\<close>

record Anchor =
  href :: "string option"
  get_text :: string

record TimeTag =
  attr_datetime :: "string option"
  attr_data_datetime :: "string option"
  time_text :: string

record Element =
  find_a :: "(string \<times> string) option"
  find_p :: "string option"
  find_time :: "TimeTag option"

record Soup =
  find_all_article :: "Element list"
  select_fallback :: "Anchor list"

record RssEntry =
  find_title :: "string option"
  find_link :: "string option"
  find_pubDate :: "string option"
  find_dc_date :: "string option"
  find_description :: "string option"

subsection \<open>The world outside (\<^verbatim>\<open>httpx\<close>, \<^verbatim>\<open>bs4\<close>, \<^verbatim>\<open>urllib\<close>, \<^verbatim>\<open>pydantic\<close>, \<^verbatim>\<open>dateutil\<close>)\<close>

text \<open>
  \<open>get_html\<close> is \<^verbatim>\<open>client.get(url)\<close>, \<^verbatim>\<open>raise_for_status()\<close> and the \<^verbatim>\<open>lxml\<close> parse; \<open>get_rss\<close>
  is the same with the XML parse and \<^verbatim>\<open>find_all("item")\<close>. \<open>urljoin\<close> is
  \<^verbatim>\<open>urllib.parse.urljoin\<close>. \<open>validate_url\<close> is the validation of an \<^verbatim>\<open>HttpUrl\<close> field:
  \<open>None\<close> where it raises, else the normalised text. \<open>parse_date\<close> is
  \<^verbatim>\<open>date_parser.parse\<close> followed by the move to UTC: \<open>None\<close> where the parser raises one of
  the exceptions \<^verbatim>\<open>_parse_datetime\<close> catches, an error where the move to UTC, which is
  outside the \<^verbatim>\<open>try\<close>, raises. \<open>clock\<close> is \<^verbatim>\<open>datetime.now(timezone.utc)\<close>.
\<close>

record Env =
  get_html :: "string \<Rightarrow> error + Soup"
  get_rss :: "string \<Rightarrow> error + RssEntry list"
  urljoin :: "string \<Rightarrow> string \<Rightarrow> string"
  validate_url :: "string \<Rightarrow> string option"
  parse_date :: "string \<Rightarrow> (error + datetime) option"
  clock :: datetime

subsection \<open>Service (\<^verbatim>\<open>services/news.py\<close>)\<close>

record ScrapeTarget =
  name :: string
  url :: string
  limit :: int

definition SCRAPE_TARGETS :: "ScrapeTarget list" where
  "SCRAPE_TARGETS =
     [\<lparr>name = ''CoinDesk'', url = ''https://www.coindesk.com/'', limit = 6\<rparr>,
      \<lparr>name = ''The Block'', url = ''https://www.theblock.co/latest'', limit = 6\<rparr>,
      \<lparr>name = ''Blockworks'', url = ''https://blockworks.co/news'', limit = 6\<rparr>,
      \<lparr>name = ''Cointelegraph'', url = ''https://cointelegraph.com/'', limit = 6\<rparr>,
      \<lparr>name = ''The Defiant'', url = ''https://thedefiant.io/latest'', limit = 6\<rparr>,
      \<lparr>name = ''DL News'', url = ''https://www.dlnews.com/'', limit = 6\<rparr>,
      \<lparr>name = ''Protos'', url = ''https://protos.com/'', limit = 6\<rparr>,
      \<lparr>name = ''Decrypt'', url = ''https://decrypt.co/'', limit = 6\<rparr>,
      \<lparr>name = ''Messari'', url = ''https://messari.io/news'', limit = 6\<rparr>,
      \<lparr>name = ''Glassnode Insights'', url = ''https://insights.glassnode.com/'', limit = 6\<rparr>,
      \<lparr>name = ''CryptoPanic'', url = ''https://cryptopanic.com/news/rss/'', limit = 6\<rparr>]"

text \<open>\<^verbatim>\<open>_parse_datetime\<close>.\<close>

definition parse_datetime :: "Env \<Rightarrow> string option \<Rightarrow> error + datetime option" where
  "parse_datetime env v =
     (case v of
        None \<Rightarrow> Inr None
      | Some s \<Rightarrow>
          if s = [] then Inr None
          else (case parse_date env s of
                  None \<Rightarrow> Inr None
                | Some (Inl e) \<Rightarrow> Inl e
                | Some (Inr t) \<Rightarrow> Inr (Some t)))"

text \<open>
  \<^verbatim>\<open>NewsArticle(source=..., title=..., url=..., summary=..., published_at=...)\<close>: the
  constructor validates \<^verbatim>\<open>url\<close> and raises where it is not an http(s) URL.
\<close>

definition new_article ::
  "Env \<Rightarrow> string \<Rightarrow> string \<Rightarrow> string \<Rightarrow> string option \<Rightarrow> datetime option
     \<Rightarrow> error + NewsArticle" where
  "new_article env src ttl link summ published =
     (case validate_url env link of
        None \<Rightarrow> Inl (ValidationError ''1 validation error for NewsArticle'')
      | Some u \<Rightarrow>
          Inr \<lparr>NewsArticle.source = src, title = ttl, NewsArticle.url = HttpUrl u,
               published_at = published,
               summary = summ, metadata = []\<rparr>)"

text \<open>\<^verbatim>\<open>a or b\<close> on optional strings: the first that is neither \<^verbatim>\<open>None\<close> nor empty.\<close>

definition py_or :: "string option \<Rightarrow> string option \<Rightarrow> string option" where
  "py_or a b = (case a of None \<Rightarrow> b | Some s \<Rightarrow> if s = [] then b else a)"

definition build_article_from_element ::
  "Env \<Rightarrow> Element \<Rightarrow> string \<Rightarrow> string \<Rightarrow> error + NewsArticle option" where
  "build_article_from_element env element base_url src =
     (case find_a element of
        None \<Rightarrow> Inr None
      | Some (anchor_href, ttl) \<Rightarrow>
          if ttl = [] \<or> length ttl < 5 then Inr None
          else
            (let absolute = urljoin env base_url anchor_href in
             if \<not> prefix ''http'' absolute then Inr None
             else
               bind_res
                 (case find_time element of
                    None \<Rightarrow> Inr None
                  | Some time_tag \<Rightarrow>
                      parse_datetime env
                        (py_or (attr_datetime time_tag)
                           (py_or (attr_data_datetime time_tag) (Some (time_text time_tag)))))
                 (\<lambda>published.
               bind_res (new_article env src ttl absolute (find_p element) published)
                 (\<lambda>article. Inr (Some article)))))"

text \<open>
  The first loop of \<^verbatim>\<open>_extract_articles\<close>, over \<^verbatim>\<open>soup.find_all("article")\<close>. The state is
  \<^verbatim>\<open>articles\<close> and \<^verbatim>\<open>seen\<close>. The test is \<^verbatim>\<open>item.url not in seen\<close>, with the URL object on the
  left; what is added is \<^verbatim>\<open>str(item.url)\<close>.
\<close>

fun structured_loop ::
  "Env \<Rightarrow> string \<Rightarrow> string \<Rightarrow> int \<Rightarrow> Element list \<Rightarrow> NewsArticle list \<Rightarrow> pyobj set
     \<Rightarrow> error + NewsArticle list \<times> pyobj set" where
  "structured_loop env base_url src cap [] articles seen = Inr (articles, seen)"
| "structured_loop env base_url src cap (element # rest) articles seen =
     (case build_article_from_element env element base_url src of
        Inl e \<Rightarrow> Inl e
      | Inr item \<Rightarrow>
          (case (case item of
                   None \<Rightarrow> (articles, seen)
                 | Some it \<Rightarrow>
                     if Url (NewsArticle.url it) \<notin> seen
                     then (articles @ [it], insert (Str (str_url (NewsArticle.url it))) seen)
                     else (articles, seen)) of
             (articles', seen') \<Rightarrow>
               if int (length articles') \<ge> cap then Inr (articles', seen')
               else structured_loop env base_url src cap rest articles' seen'))"

text \<open>The second loop, over \<^verbatim>\<open>soup.select("h2 a, h3 a, .headline a")\<close>.\<close>

fun fallback_loop ::
  "Env \<Rightarrow> string \<Rightarrow> string \<Rightarrow> int \<Rightarrow> Anchor list \<Rightarrow> NewsArticle list \<Rightarrow> pyobj set
     \<Rightarrow> error + NewsArticle list" where
  "fallback_loop env base_url src cap [] articles seen = Inr articles"
| "fallback_loop env base_url src cap (anchor # rest) articles seen =
     (case href anchor of
        None \<Rightarrow> fallback_loop env base_url src cap rest articles seen
      | Some h \<Rightarrow>
          if h = [] \<or> get_text anchor = [] \<or> length (get_text anchor) < 5
          then fallback_loop env base_url src cap rest articles seen
          else if \<not> prefix ''http'' (urljoin env base_url h)
          then fallback_loop env base_url src cap rest articles seen
          else if Str (urljoin env base_url h) \<in> seen
          then fallback_loop env base_url src cap rest articles seen
          else
            (case new_article env src (get_text anchor) (urljoin env base_url h) None None of
               Inl e \<Rightarrow> Inl e
             | Inr article \<Rightarrow>
                 if int (length (articles @ [article])) \<ge> cap then Inr (articles @ [article])
                 else fallback_loop env base_url src cap rest (articles @ [article])
                        (insert (Str (urljoin env base_url h)) seen)))"

text \<open>\<^verbatim>\<open>xs[:n]\<close>: a negative \<^verbatim>\<open>n\<close> counts from the end.\<close>

definition slice_to :: "'a list \<Rightarrow> int \<Rightarrow> 'a list" where
  "slice_to xs n = (if 0 \<le> n then take (nat n) xs else take (length xs - nat (- n)) xs)"

definition extract_articles ::
  "Env \<Rightarrow> Soup \<Rightarrow> string \<Rightarrow> string \<Rightarrow> int \<Rightarrow> error + NewsArticle list" where
  "extract_articles env soup base_url src cap =
     bind_res (structured_loop env base_url src cap (find_all_article soup) [] {})
       (\<lambda>(articles, seen).
     bind_res
       (if int (length articles) < cap
        then fallback_loop env base_url src cap (select_fallback soup) articles seen
        else Inr articles)
       (\<lambda>articles'. Inr (slice_to articles' cap)))"

definition scrape_generic :: "Env \<Rightarrow> ScrapeTarget \<Rightarrow> int \<Rightarrow> error + NewsFeed" where
  "scrape_generic env target cap =
     bind_res (get_html env (ScrapeTarget.url target)) (\<lambda>soup.
     bind_res (extract_articles env soup (ScrapeTarget.url target) (name target) cap)
       (\<lambda>articles.
     Inr \<lparr>source = name target, NewsFeed.fetched_at = clock env, items = articles\<rparr>))"

text \<open>The loop of \<^verbatim>\<open>_fetch_cryptopanic_rss\<close>, over \<^verbatim>\<open>soup.find_all("item")\<close>.\<close>

fun rss_loop ::
  "Env \<Rightarrow> string \<Rightarrow> int \<Rightarrow> RssEntry list \<Rightarrow> NewsArticle list \<Rightarrow> pyobj set
     \<Rightarrow> error + NewsArticle list" where
  "rss_loop env src cap [] articles seen = Inr articles"
| "rss_loop env src cap (entry # rest) articles seen =
     (case (find_title entry, find_link entry) of
        (Some ttl, Some link) \<Rightarrow>
          if ttl = [] \<or> link = [] \<or> Str link \<in> seen
          then rss_loop env src cap rest articles seen
          else
            (case parse_datetime env
                    (case find_pubDate entry of Some d \<Rightarrow> Some d | None \<Rightarrow> find_dc_date entry) of
               Inl e \<Rightarrow> Inl e
             | Inr published \<Rightarrow>
                 (case new_article env src ttl link (find_description entry) published of
                    Inl e \<Rightarrow> Inl e
                  | Inr article \<Rightarrow>
                      if int (length (articles @ [article])) \<ge> cap
                      then Inr (articles @ [article])
                      else rss_loop env src cap rest (articles @ [article])
                             (insert (Str link) seen)))
      | _ \<Rightarrow> rss_loop env src cap rest articles seen)"

definition fetch_cryptopanic_rss :: "Env \<Rightarrow> ScrapeTarget \<Rightarrow> int \<Rightarrow> error + NewsFeed" where
  "fetch_cryptopanic_rss env target cap =
     bind_res (get_rss env (ScrapeTarget.url target)) (\<lambda>entries.
     bind_res (rss_loop env (name target) cap entries [] {}) (\<lambda>articles.
     Inr \<lparr>source = name target, NewsFeed.fetched_at = clock env, items = articles\<rparr>))"

definition fetch_target :: "Env \<Rightarrow> ScrapeTarget \<Rightarrow> int \<Rightarrow> error + NewsFeed" where
  "fetch_target env target limit_per_source =
     (let cap = min limit_per_source (limit target) in
      if name target = ''CryptoPanic'' then fetch_cryptopanic_rss env target cap
      else scrape_generic env target cap)"

text \<open>
  The feed \<^verbatim>\<open>fetch_all\<close> builds for a target whose task ended in an exception. Its
  placeholder URL is a constant that validation accepts as it is.
\<close>

definition failed_feed :: "Env \<Rightarrow> ScrapeTarget \<Rightarrow> error \<Rightarrow> NewsFeed" where
  "failed_feed env target e =
     (let message = str_of_error e in
      \<lparr>source = name target, NewsFeed.fetched_at = clock env,
       items =
         [\<lparr>NewsArticle.source = name target, title = ''Failed to retrieve articles'',
           NewsArticle.url = HttpUrl ''https://status.fastpi.dev/error'', published_at = None,
           summary = Some message, metadata = [(''error'', JStr message)]\<rparr>]\<rparr>)"

text \<open>The \<^verbatim>\<open>for target, result in zip(SCRAPE_TARGETS, results)\<close> loop of \<^verbatim>\<open>fetch_all\<close>.\<close>

fun collect_feeds ::
  "Env \<Rightarrow> (ScrapeTarget \<times> (error + NewsFeed)) list \<Rightarrow> NewsFeed list \<Rightarrow> NewsFeed list" where
  "collect_feeds env [] acc = acc"
| "collect_feeds env ((target, result) # rest) acc =
     collect_feeds env rest
       (acc @ [case result of Inr feed \<Rightarrow> feed | Inl e \<Rightarrow> failed_feed env target e])"

definition fetch_all :: "Env \<Rightarrow> int \<Rightarrow> NewsAggregate" where
  "fetch_all env limit_per_source =
     (let results = map (\<lambda>target. fetch_target env target limit_per_source) SCRAPE_TARGETS in
      \<lparr>fetched_at = clock env,
       feeds = collect_feeds env (zip SCRAPE_TARGETS results) []\<rparr>)"

section \<open>Examples\<close>

text \<open>
  The mocked upstreams of \<^verbatim>\<open>tests/test_market_service.py\<close>, with the first provider
  answering 503. \<open>test_float\<close> is \<^verbatim>\<open>float\<close> on the strings of these payloads and on
  \<^verbatim>\<open>"0.07"\<close>: the double nearest to the decimal number.
\<close>

definition test_settings :: Settings where
  "test_settings =
     \<lparr>binance_base_url = ''https://api.binance.com'',
      bybit_base_url = ''https://api.bybit.com'',
      coincap_base_url = ''https://api.coincap.io/v2'',
      coincap_api_key = None\<rparr>"

definition test_client :: client where
  "test_client u params headers =
     (if u = ''https://api.binance.com/api/v3/ticker/24hr''
      then Inl (HTTPError ''Server error 503 Service Unavailable'')
      else if u = ''https://api.bybit.com/v5/market/tickers''
      then Inr (JObj [(''result'', JObj [(''list'', JList [JObj
                      [(''lastPrice'', JStr ''63950.55''),
                       (''price24hPcnt'', JStr ''0.025''),
                       (''turnover24h'', JStr ''420000000.0'')]])])])
      else Inr (JObj [(''data'', JList [JObj
                      [(''symbol'', JStr ''BTC''),
                       (''priceUsd'', JStr ''63975.10''),
                       (''changePercent24Hr'', JStr ''2.45''),
                       (''volumeUsd24Hr'', JStr ''410000000.0'')]])]))"

definition test_float :: "string \<Rightarrow> float option" where
  "test_float s = map_option round_double (map_of
     [(''63950.55'', 63950.55), (''0.025'', 0.025), (''420000000.0'', 420000000),
      (''63975.10'', 63975.10), (''2.45'', 2.45), (''410000000.0'', 410000000),
      (''0.07'', 0.07)] s)"


text \<open>Bybit reporting a change of \<^verbatim>\<open>"0.07"\<close>, that is 7 percent.\<close>

definition seven_percent_client :: client where
  "seven_percent_client u params headers =
     Inr (JObj [(''result'', JObj [(''list'', JList [JObj
                  [(''lastPrice'', JStr ''63950.55''),
                   (''price24hPcnt'', JStr ''0.07'')]])])])"




text \<open>
  Stand-ins for the libraries of the news service, right on the inputs of the examples:
  \<open>test_urljoin\<close> returns an href that is an absolute http(s) URL as it is, as
  \<^verbatim>\<open>urljoin\<close> does; \<open>test_validate_url\<close> accepts a lower-case http(s) URL with a path
  unchanged, as the validation of an \<^verbatim>\<open>HttpUrl\<close> does; \<open>test_parse_date\<close> knows the date of
  \<^verbatim>\<open>tests/test_news_service.py\<close>. The RSS item is the one of that test.
\<close>

definition test_urljoin :: "string \<Rightarrow> string \<Rightarrow> string" where
  "test_urljoin base h =
     (if prefix ''http://'' h \<or> prefix ''https://'' h then h else base @ h)"

definition test_validate_url :: "string \<Rightarrow> string option" where
  "test_validate_url u =
     (if prefix ''http://'' u \<or> prefix ''https://'' u then Some u else None)"

definition test_parse_date :: "string \<Rightarrow> (error + datetime) option" where
  "test_parse_date s =
     (if s = ''Mon, 20 May 2024 15:20:00 +0000'' then Some (Inr 1716218400) else None)"

definition duplicate_soup :: Soup where
  "duplicate_soup =
     \<lparr>find_all_article =
        [\<lparr>find_a = Some (''https://www.theblock.co/post/1'', ''First crypto update''),
          find_p = None, find_time = None\<rparr>,
         \<lparr>find_a = Some (''https://www.theblock.co/post/1'', ''Crypto update, again''),
          find_p = None, find_time = None\<rparr>],
      select_fallback = []\<rparr>"

definition three_soup :: Soup where
  "three_soup =
     \<lparr>find_all_article =
        [\<lparr>find_a = Some (''https://blockworks.co/news/a'', ''First crypto update''),
          find_p = Some ''Summary about the first article.'', find_time = None\<rparr>,
         \<lparr>find_a = Some (''https://blockworks.co/news/b'', ''Second crypto insight''),
          find_p = None, find_time = None\<rparr>,
         \<lparr>find_a = Some (''https://blockworks.co/news/c'', ''Third crypto report''),
          find_p = None, find_time = None\<rparr>],
      select_fallback = []\<rparr>"

definition filter_soup :: Soup where
  "filter_soup =
     \<lparr>find_all_article =
        [\<lparr>find_a = Some (''https://decrypt.co/1'', ''Hi''), find_p = None, find_time = None\<rparr>],
      select_fallback =
        [\<lparr>href = Some ''https://decrypt.co/2'', get_text = ''Hi''\<rparr>,
         \<lparr>href = None, get_text = ''No link on this one''\<rparr>,
         \<lparr>href = Some ''https://decrypt.co/3'', get_text = ''Crypto surges today''\<rparr>]\<rparr>"

definition test_get_html :: "string \<Rightarrow> error + Soup" where
  "test_get_html u =
     (if u = ''https://www.coindesk.com/'' then Inl (HTTPError ''All connection attempts failed'')
      else if u = ''https://www.theblock.co/latest'' then Inr duplicate_soup
      else if u = ''https://blockworks.co/news'' then Inr three_soup
      else if u = ''https://decrypt.co/'' then Inr filter_soup
      else Inr \<lparr>find_all_article = [], select_fallback = []\<rparr>)"

definition test_get_rss :: "string \<Rightarrow> error + RssEntry list" where
  "test_get_rss u =
     Inr [\<lparr>find_title = Some ''Market sentiment flips'',
           find_link = Some ''https://cryptopanic.com/news/market-sentiment'',
           find_pubDate = Some ''Mon, 20 May 2024 15:20:00 +0000'',
           find_dc_date = None,
           find_description = Some ''Quick summary.''\<rparr>]"

definition test_env :: Env where
  "test_env =
     \<lparr>get_html = test_get_html, get_rss = test_get_rss, urljoin = test_urljoin,
      validate_url = test_validate_url, parse_date = test_parse_date, clock = 0\<rparr>"

definition market_sentiment_feed :: NewsFeed where
  "market_sentiment_feed =
     \<lparr>source = ''CryptoPanic'', NewsFeed.fetched_at = 0,
      items =
        [\<lparr>NewsArticle.source = ''CryptoPanic'', title = ''Market sentiment flips'',
          NewsArticle.url = HttpUrl ''https://cryptopanic.com/news/market-sentiment'',
          published_at = Some 1716218400, summary = Some ''Quick summary.'',
          metadata = []\<rparr>]\<rparr>"




section \<open>Results\<close>

subsection \<open>Results in the error monad\<close>

lemma bind_res_Inr [simp]: "bind_res (Inr x) f = f x"
  by (simp add: bind_res_def)

lemma bind_res_Inl [simp]: "bind_res (Inl e) f = Inl e"
  by (simp add: bind_res_def)

lemma bind_res_cong [cong]: "m = m' \<Longrightarrow> bind_res m f = bind_res m' f"
  by simp

lemma bind_res_eq_Inr: "bind_res m f = Inr y \<longleftrightarrow> (\<exists>x. m = Inr x \<and> f x = Inr y)"
  by (cases m) simp_all

lemma float_overflow_bound_le: "float_overflow_bound \<le> 2 ^ 1024"
  by (simp add: float_overflow_bound_def)

text \<open>
  Claim C9. \<^verbatim>\<open>_to_float\<close> is meant never to raise. It does on a JSON integer too large for a
  double: \<^verbatim>\<open>float\<close> raises \<^verbatim>\<open>OverflowError\<close>, which the \<^verbatim>\<open>except\<close> clause does not name, so the
  exception leaves \<^verbatim>\<open>_to_float\<close>. Here at \<open>2 ^ 1024\<close>.
\<close>

theorem to_float_overflow_raises:
  "to_float pf (JInt (2 ^ 1024)) = Inl (OverflowError ''int too large to convert to float'')"
  using float_overflow_bound_le by (simp add: to_float_def)

lemma to_float_returns:
  assumes "\<And>n. v = JInt n \<Longrightarrow> \<bar>n\<bar> < float_overflow_bound"
  shows "\<exists>r. to_float pf v = Inr r"
  using assms by (cases v) (auto simp: to_float_def split: option.splits)

lemma fetch_binance_fields:
  "fetch_binance st cl pf b q = Inr p \<Longrightarrow>
     MarketPricePoint.source p = ''binance'' \<and> MarketPricePoint.symbol p = b @ q"
  by (auto simp: fetch_binance_def bind_res_eq_Inr Let_def)

lemma fetch_bybit_fields:
  "fetch_bybit st cl pf b q = Inr p \<Longrightarrow>
     MarketPricePoint.source p = ''bybit'' \<and> MarketPricePoint.symbol p = b @ q"
  by (auto simp: fetch_bybit_def bind_res_eq_Inr Let_def split: if_splits)

lemma fetch_coincap_fields:
  "fetch_coincap st cl pf b q = Inr p \<Longrightarrow>
     MarketPricePoint.source p = ''coincap'' \<and> MarketPricePoint.symbol p = b @ q"
  by (auto simp: fetch_coincap_def bind_res_eq_Inr Let_def)

text \<open>
  Claim C1. For every base and quote symbol, the snapshot of \<^verbatim>\<open>fetch_symbol\<close> has exactly
  three price points, in the order Binance, Bybit, CoinCap. A slot holds what its provider
  returned, tagged with the provider's name, or, where the provider failed, a point tagged
  \<open>error\<close> whose \<open>raw\<close> field carries the failure message. No failure leaves the call.
\<close>

theorem fetch_symbol_three_points:
  "\<exists>p1 p2 p3.
     prices (fetch_symbol st cl pf t b q) = [p1, p2, p3] \<and>
     (case fetch_binance st cl pf (upper b) (upper q) of
        Inr p \<Rightarrow> p1 = p \<and> MarketPricePoint.source p1 = ''binance''
      | Inl e \<Rightarrow> MarketPricePoint.source p1 = ''error'' \<and>
                 raw p1 = JObj [(''message'', JStr (str_of_error e))]) \<and>
     (case fetch_bybit st cl pf (upper b) (upper q) of
        Inr p \<Rightarrow> p2 = p \<and> MarketPricePoint.source p2 = ''bybit''
      | Inl e \<Rightarrow> MarketPricePoint.source p2 = ''error'' \<and>
                 raw p2 = JObj [(''message'', JStr (str_of_error e))]) \<and>
     (case fetch_coincap st cl pf (upper b) (upper q) of
        Inr p \<Rightarrow> p3 = p \<and> MarketPricePoint.source p3 = ''coincap''
      | Inl e \<Rightarrow> MarketPricePoint.source p3 = ''error'' \<and>
                 raw p3 = JObj [(''message'', JStr (str_of_error e))])"
  by (auto simp: fetch_symbol_def Let_def error_point_def split: sum.splits
           dest: fetch_binance_fields fetch_bybit_fields fetch_coincap_fields)

text \<open>
  Claim C10. In every snapshot of \<^verbatim>\<open>fetch_symbol\<close> the base and quote symbols are the
  uppercased inputs, the symbol is their concatenation, and each of the three price
  points, error placeholders included, carries that symbol.
\<close>

theorem fetch_symbol_symbols:
  "base_symbol (fetch_symbol st cl pf t b q) = upper b \<and>
   quote_symbol (fetch_symbol st cl pf t b q) = upper q \<and>
   MarketAggregate.symbol (fetch_symbol st cl pf t b q) = upper b @ upper q \<and>
   map MarketPricePoint.symbol (prices (fetch_symbol st cl pf t b q)) =
     replicate 3 (MarketAggregate.symbol (fetch_symbol st cl pf t b q))"
  by (auto simp: fetch_symbol_def Let_def error_point_def numeral_3_eq_3 split: sum.splits
           dest: fetch_binance_fields fetch_bybit_fields fetch_coincap_fields)

subsection \<open>The exponent of a real number\<close>

text \<open>
  \<open>bit_length\<close> counts binary digits, and \<open>exponent\<close> brackets a number between two
  consecutive powers of 2, so that \<open>round_double\<close> rounds at the right digit.
\<close>

lemma bit_length_bounds: "0 < n \<Longrightarrow> 2 ^ (bit_length n - 1) \<le> n \<and> n < 2 ^ bit_length n"
proof (induction n rule: bit_length.induct)
  case (1 n)
  show ?case
  proof (cases "n div 2 = 0")
    case True
    with 1(2) have "n = 1"
      by (simp add: div_eq_0_iff)
    then show ?thesis
      by (simp add: bit_length.simps)
  next
    case False
    with 1 have IH: "2 ^ (bit_length (n div 2) - 1) \<le> n div 2" "n div 2 < 2 ^ bit_length (n div 2)"
      by simp_all
    have pos: "0 < bit_length (n div 2)"
      using False by (subst bit_length.simps) simp
    have len: "bit_length n = Suc (bit_length (n div 2))"
      using 1(2) by (subst bit_length.simps) simp
    from pos have "(2::nat) ^ bit_length (n div 2) = 2 * 2 ^ (bit_length (n div 2) - 1)"
      by (cases "bit_length (n div 2)") simp_all
    with IH(1) have low: "2 ^ bit_length (n div 2) \<le> n"
      by linarith
    from IH(2) have "n < 2 * 2 ^ bit_length (n div 2)"
      by linarith
    with low len show ?thesis
      by simp
  qed
qed

lemma exponent_bounds:
  assumes "x \<noteq> 0"
  shows "pow2 (exponent x) \<le> \<bar>x\<bar> \<and> \<bar>x\<bar> < pow2 (exponent x + 1)"
proof (cases "1 \<le> \<bar>x\<bar>")
  case True
  define n where "n = nat \<lfloor>\<bar>x\<bar>\<rfloor>"
  from True have n: "0 < n" "real n \<le> \<bar>x\<bar>" "\<bar>x\<bar> < real n + 1"
    unfolding n_def by linarith+
  from bit_length_bounds [OF n(1)] have b: "2 ^ (bit_length n - 1) \<le> n" "n < 2 ^ bit_length n"
    by simp_all
  have pos: "0 < bit_length n"
    using n(1) by (subst bit_length.simps) simp
  have e: "exponent x = int (bit_length n) - 1"
    using True by (simp add: exponent_def n_def)
  have p1: "pow2 (exponent x) = 2 ^ (bit_length n - 1)"
    using pos by (simp add: e pow2_def nat_diff_distrib' of_nat_diff)
  have p2: "pow2 (exponent x + 1) = 2 ^ bit_length n"
    by (simp add: e pow2_def)
  from b(1) have "(2::real) ^ (bit_length n - 1) \<le> real n"
    by (metis of_nat_le_iff of_nat_numeral of_nat_power)
  moreover from b(2) have "real n + 1 \<le> 2 ^ bit_length n"
    by (metis Suc_leI of_nat_Suc of_nat_le_iff of_nat_numeral of_nat_power add.commute)
  ultimately show ?thesis
    using n(2,3) unfolding p1 p2 by linarith
next
  case False
  define y where "y = 1 / \<bar>x\<bar>"
  define n where "n = nat (\<lceil>y\<rceil> - 1)"
  from False assms have y: "1 < y"
    by (simp add: y_def)
  then have n: "0 < n" "real n < y" "y \<le> real n + 1"
    unfolding n_def by linarith+
  from bit_length_bounds [OF n(1)] have b: "2 ^ (bit_length n - 1) \<le> n" "n < 2 ^ bit_length n"
    by simp_all
  have pos: "0 < bit_length n"
    using n(1) by (subst bit_length.simps) simp
  have e: "exponent x = - int (bit_length n)"
    using False by (simp add: exponent_def n_def y_def)
  have p1: "pow2 (exponent x) = 1 / 2 ^ bit_length n"
    using pos by (simp add: e pow2_def)
  have p2: "pow2 (exponent x + 1) = 1 / 2 ^ (bit_length n - 1)"
    using pos by (cases "bit_length n") (simp_all add: e pow2_def nat_diff_distrib')
  from b(1) have "(2::real) ^ (bit_length n - 1) \<le> real n"
    by (metis of_nat_le_iff of_nat_numeral of_nat_power)
  with n(2) have up: "2 ^ (bit_length n - 1) < y"
    by linarith
  from b(2) have "real n + 1 \<le> 2 ^ bit_length n"
    by (metis Suc_leI of_nat_Suc of_nat_le_iff of_nat_numeral of_nat_power add.commute)
  with n(3) have low: "y \<le> 2 ^ bit_length n"
    by linarith
  have xy: "\<bar>x\<bar> = 1 / y"
    using assms by (simp add: y_def)
  from low y have "1 / 2 ^ bit_length n \<le> 1 / y"
    by (intro divide_left_mono) simp_all
  moreover from up y have "1 / y < 1 / 2 ^ (bit_length n - 1)"
    by (intro divide_strict_left_mono mult_pos_pos) simp_all
  ultimately show ?thesis
    unfolding p1 p2 xy by blast
qed

subsection \<open>Sorting doubles\<close>















lemmas float_eval = round_double_def exponent_def pow2_def round_half_even_def
  bit_length.simps

lemmas market_eval = upper_def upper_char_def char_of_eq_iff test_settings_def test_client_def
  test_float_def fetch_binance_def fetch_bybit_def fetch_coincap_def select_asset_def
  symbol_upper_def fetch_symbol_def to_float_def Let_def error_point_def

subsection \<open>Median price\<close>




subsection \<open>Bybit's change percentage\<close>

text \<open>
  Claim C4, as amended. Where the first element of the list in Bybit's response carries
  a \<^verbatim>\<open>price24hPcnt\<close> that \<^verbatim>\<open>_to_float\<close> reads as the double \<open>r\<close>, the \<open>change_24h\<close> of the returned
  point is \<^verbatim>\<open>r * 100\<close> in double arithmetic: one hundred times \<open>r\<close>, rounded to the nearest
  double.
\<close>

theorem fetch_bybit_change_percent:
  assumes "cl (bybit_base_url st @ ''/v5/market/tickers'')
              [(''category'', ''spot''), (''symbol'', b @ q)] None = Inr payload"
    and "py_get payload ''result'' (JObj []) = Inr result"
    and "py_get result ''list'' (JList []) = Inr (JList (JObj kvs # others))"
    and "map_of kvs ''price24hPcnt'' = Some v"
    and "to_float pf v = Inr (Some r)"
    and "fetch_bybit st cl pf b q = Inr p"
  shows "change_24h p = Some (fmul r (Finite 100))"
proof -
  from assms(4) have "kvs \<noteq> []" and "''price24hPcnt'' \<in> fst ` set kvs"
    by (auto dest: map_of_SomeD intro: rev_image_eqI)
  with assms show ?thesis
    by (auto simp: fetch_bybit_def Let_def bind_res_eq_Inr)
qed

text \<open>The raw value \<^verbatim>\<open>"0.025"\<close> of the test suite gives 2.5.\<close>

theorem fetch_bybit_change_percent_witness:
  "\<exists>p. fetch_bybit test_settings test_client test_float ''BTC'' ''USDT'' = Inr p \<and>
       change_24h p = Some (Finite 2.5)"
proof -
  let ?first = "[(''lastPrice'', JStr ''63950.55''), (''price24hPcnt'', JStr ''0.025''),
                 (''turnover24h'', JStr ''420000000.0'')]"
  let ?payload = "JObj [(''result'', JObj [(''list'', JList [JObj ?first])])]"
  obtain p where p: "fetch_bybit test_settings test_client test_float ''BTC'' ''USDT'' = Inr p"
    by (simp add: market_eval)
  have "change_24h p = Some (fmul (Finite (3602879701896397 / 2 ^ 57)) (Finite 100))"
  proof (rule fetch_bybit_change_percent [OF _ _ _ _ _ p])
    show "test_client (bybit_base_url test_settings @ ''/v5/market/tickers'')
            [(''category'', ''spot''), (''symbol'', ''BTC'' @ ''USDT'')] None = Inr ?payload"
      by (simp add: test_client_def test_settings_def)
    show "py_get ?payload ''result'' (JObj []) = Inr (JObj [(''list'', JList [JObj ?first])])"
      by simp
    show "py_get (JObj [(''list'', JList [JObj ?first])]) ''list'' (JList [])
            = Inr (JList (JObj ?first # []))"
      by simp
    show "map_of ?first ''price24hPcnt'' = Some (JStr ''0.025'')"
      by simp
    show "to_float test_float (JStr ''0.025'') = Inr (Some (Finite (3602879701896397 / 2 ^ 57)))"
      by (simp add: to_float_def test_float_def float_eval Let_def)
  qed
  also have "fmul (Finite (3602879701896397 / 2 ^ 57)) (Finite 100) = Finite 2.5"
    by (simp add: float_eval Let_def)
  finally show ?thesis
    using p by simp
qed

text \<open>
  Claim C4 as stated, with exactly one hundred times the raw value, fails at the raw
  value \<^verbatim>\<open>"0.07"\<close>. It is read as the double \<open>5044031582654956 / 2 ^ 56\<close>, and the product with
  100 is rounded to \<open>7881299347898369 / 2 ^ 50\<close>, which Python prints as
  \<^verbatim>\<open>7.000000000000001\<close>: neither one hundred times that double nor 7.
\<close>

theorem fetch_bybit_seven_percent_counterexample:
  "to_float test_float (JStr ''0.07'') = Inr (Some (Finite (5044031582654956 / 2 ^ 56))) \<and>
   (\<exists>p. fetch_bybit test_settings seven_percent_client test_float ''BTC'' ''USDT'' = Inr p \<and>
        change_24h p = Some (Finite (7881299347898369 / 2 ^ 50)) \<and>
        change_24h p \<noteq> Some (Finite (100 * (5044031582654956 / 2 ^ 56))) \<and>
        change_24h p \<noteq> Some (Finite 7))"
proof -
  have product: "fmul (Finite (5044031582654956 / 2 ^ 56)) (Finite 100)
                   = Finite (7881299347898369 / 2 ^ 50)"
    by (simp add: float_eval Let_def)
  have raw_value:
    "to_float test_float (JStr ''0.07'') = Inr (Some (Finite (5044031582654956 / 2 ^ 56)))"
    by (simp add: to_float_def test_float_def float_eval Let_def)
  have "\<exists>p. fetch_bybit test_settings seven_percent_client test_float ''BTC'' ''USDT''
               = Inr p \<and>
             change_24h p = Some (fmul (Finite (5044031582654956 / 2 ^ 56)) (Finite 100))"
    by (simp add: seven_percent_client_def fetch_bybit_def test_settings_def to_float_def
          test_float_def float_eval Let_def)
  then obtain p where
    "fetch_bybit test_settings seven_percent_client test_float ''BTC'' ''USDT'' = Inr p"
    and "change_24h p = Some (Finite (7881299347898369 / 2 ^ 50))"
    unfolding product by blast
  moreover from this(2) have
    "change_24h p \<noteq> Some (Finite (100 * (5044031582654956 / 2 ^ 56)))"
    "change_24h p \<noteq> Some (Finite 7)"
    by simp_all
  ultimately show ?thesis
    using raw_value by blast
qed




subsection \<open>News: evaluation of the examples\<close>

lemmas news_eval = test_env_def test_get_html_def test_get_rss_def test_urljoin_def
  test_validate_url_def test_parse_date_def duplicate_soup_def three_soup_def filter_soup_def
  fetch_target_def fetch_cryptopanic_rss_def scrape_generic_def extract_articles_def
  build_article_from_element_def new_article_def parse_datetime_def py_or_def slice_to_def
  SCRAPE_TARGETS_def Let_def market_sentiment_feed_def


subsection \<open>Length of a feed\<close>

lemma length_snoc_less: "1 + int (length xs) < cap \<Longrightarrow> int (length (xs @ [x])) < cap"
  by simp

lemma rss_loop_length:
  "int (length articles) < cap \<Longrightarrow> rss_loop env src cap entries articles seen = Inr out \<Longrightarrow>
     int (length out) \<le> cap"
proof (induction entries arbitrary: articles seen)
  case Nil
  then show ?case by simp
next
  case (Cons entry rest)
  note IH = Cons.IH [OF length_snoc_less]
  from Cons.prems show ?case
    by (auto split: option.splits if_splits sum.splits simp: not_le intro: Cons.IH IH)
qed

lemma slice_to_length: "0 \<le> cap \<Longrightarrow> int (length (slice_to xs cap)) \<le> cap"
  by (simp add: slice_to_def)

lemma extract_articles_length:
  "0 \<le> cap \<Longrightarrow> extract_articles env soup base_url src cap = Inr out \<Longrightarrow>
     int (length out) \<le> cap"
  by (auto simp: extract_articles_def bind_res_eq_Inr slice_to_length)

text \<open>
  Claim C6. The feed fetched for a target has at most min(cap, maximum) articles, for
  the requested cap and the configured maximum of the target: on the HTML path, both
  tiers together, whenever that minimum is not negative, and on the RSS path whenever it
  is at least 1. The endpoint admits caps from 1 to 12, and each of the eleven configured
  targets has the maximum 6.
\<close>

theorem fetch_target_cap:
  assumes "fetch_target env t n = Inr feed"
    and "if name t = ''CryptoPanic'' then 1 \<le> min n (limit t) else 0 \<le> min n (limit t)"
  shows "int (length (items feed)) \<le> min n (limit t)"
proof (cases "name t = ''CryptoPanic''")
  case True
  with assms(1) obtain entries out where
    "rss_loop env (name t) (min n (limit t)) entries [] {} = Inr out" and "items feed = out"
    by (auto simp: fetch_target_def fetch_cryptopanic_rss_def bind_res_eq_Inr Let_def)
  moreover have "int (length ([] :: NewsArticle list)) < min n (limit t)"
    using assms(2) True by simp
  ultimately show ?thesis
    using rss_loop_length by blast
next
  case False
  with assms(1) obtain soup out where
    "extract_articles env soup (ScrapeTarget.url t) (name t) (min n (limit t)) = Inr out"
    and "items feed = out"
    by (auto simp: fetch_target_def scrape_generic_def bind_res_eq_Inr Let_def)
  moreover have "0 \<le> min n (limit t)"
    using assms(2) False by simp
  ultimately show ?thesis
    using extract_articles_length by blast
qed

text \<open>
  A page of Blockworks with three articles, fetched with the cap 2, gives a feed of two.
\<close>

theorem fetch_target_cap_witness:
  "\<exists>feed. fetch_target test_env (SCRAPE_TARGETS ! 2) 2 = Inr feed \<and>
          length (items feed) = 2 \<and>
          int (length (items feed)) \<le> min 2 (limit (SCRAPE_TARGETS ! 2))"
proof -
  obtain feed where feed: "fetch_target test_env (SCRAPE_TARGETS ! 2) 2 = Inr feed"
    and two: "length (items feed) = 2"
    by (simp add: news_eval)
  have "if name (SCRAPE_TARGETS ! 2) = ''CryptoPanic''
        then 1 \<le> min 2 (limit (SCRAPE_TARGETS ! 2))
        else 0 \<le> min 2 (limit (SCRAPE_TARGETS ! 2))"
    by (simp add: SCRAPE_TARGETS_def)
  from fetch_target_cap [OF feed this] feed two show ?thesis
    by blast
qed

text \<open>
  The RSS path needs its lower bound: the loop of \<^verbatim>\<open>_fetch_cryptopanic_rss\<close> compares the
  length with the cap after it has appended, so with the cap 0, which the endpoint does
  not admit, the feed has one article.
\<close>

lemma rss_cap_zero_one_article:
  "fetch_target test_env (SCRAPE_TARGETS ! 10) 0 = Inr market_sentiment_feed \<and>
   length (items market_sentiment_feed) = 1"
  by (simp add: news_eval)

subsection \<open>One feed per target\<close>

lemma collect_feeds_map:
  "collect_feeds env pairs acc =
     acc @ map (\<lambda>(target, result).
                  case result of Inr feed \<Rightarrow> feed | Inl e \<Rightarrow> failed_feed env target e) pairs"
  by (induction pairs arbitrary: acc) auto

lemma fetch_target_source:
  "fetch_target env t n = Inr feed \<Longrightarrow> NewsFeed.source feed = name t"
  by (auto simp: fetch_target_def fetch_cryptopanic_rss_def scrape_generic_def
        bind_res_eq_Inr Let_def split: if_splits)

lemma map_zip_same: "map g (zip xs (map f xs)) = map (\<lambda>x. g (x, f x)) xs"
  by (induction xs) auto

lemma feeds_fetch_all:
  "feeds (fetch_all env n) =
     map (\<lambda>t. case fetch_target env t n of Inr feed \<Rightarrow> feed | Inl e \<Rightarrow> failed_feed env t e)
       SCRAPE_TARGETS"
  by (simp add: fetch_all_def collect_feeds_map map_zip_same Let_def)

lemma length_SCRAPE_TARGETS: "length SCRAPE_TARGETS = 11"
  by (simp add: SCRAPE_TARGETS_def)

text \<open>
  Claim C2. For every per-source limit \<^verbatim>\<open>fetch_all\<close> returns eleven feeds, one per
  configured target and in their order. Where the fetch of a target raised, its feed
  holds exactly the synthetic article: the fixed title and placeholder URL, the failure
  message as summary and under \<open>error\<close> in the metadata, no publication date.
\<close>

theorem fetch_all_one_feed_per_target:
  "length (feeds (fetch_all env n)) = 11 \<and>
   map NewsFeed.source (feeds (fetch_all env n)) = map name SCRAPE_TARGETS \<and>
   (\<forall>i e. i < 11 \<longrightarrow> fetch_target env (SCRAPE_TARGETS ! i) n = Inl e \<longrightarrow>
      items (feeds (fetch_all env n) ! i) =
        [\<lparr>NewsArticle.source = name (SCRAPE_TARGETS ! i),
          title = ''Failed to retrieve articles'',
          NewsArticle.url = HttpUrl ''https://status.fastpi.dev/error'',
          published_at = None,
          summary = Some (str_of_error e),
          metadata = [(''error'', JStr (str_of_error e))]\<rparr>])"
proof (intro conjI allI impI)
  show "length (feeds (fetch_all env n)) = 11"
    by (simp add: feeds_fetch_all length_SCRAPE_TARGETS)
  show "map NewsFeed.source (feeds (fetch_all env n)) = map name SCRAPE_TARGETS"
    by (auto simp: feeds_fetch_all failed_feed_def Let_def split: sum.splits
          dest: fetch_target_source)
next
  fix i e
  assume "i < 11" and "fetch_target env (SCRAPE_TARGETS ! i) n = Inl e"
  then show "items (feeds (fetch_all env n) ! i) =
        [\<lparr>NewsArticle.source = name (SCRAPE_TARGETS ! i),
          title = ''Failed to retrieve articles'',
          NewsArticle.url = HttpUrl ''https://status.fastpi.dev/error'',
          published_at = None,
          summary = Some (str_of_error e),
          metadata = [(''error'', JStr (str_of_error e))]\<rparr>]"
    by (simp add: feeds_fetch_all length_SCRAPE_TARGETS failed_feed_def Let_def)
qed

theorem fetch_all_one_feed_per_target_witness:
  "items (feeds (fetch_all test_env 6) ! 0) =
     [\<lparr>NewsArticle.source = ''CoinDesk'',
       title = ''Failed to retrieve articles'',
       NewsArticle.url = HttpUrl ''https://status.fastpi.dev/error'',
       published_at = None,
       summary = Some ''All connection attempts failed'',
       metadata = [(''error'', JStr ''All connection attempts failed'')]\<rparr>]"
proof -
  have "fetch_target test_env (SCRAPE_TARGETS ! 0) 6 =
          Inl (HTTPError ''All connection attempts failed'')"
    by (simp add: news_eval)
  with fetch_all_one_feed_per_target [of test_env 6] show ?thesis
    by (simp add: SCRAPE_TARGETS_def)
qed

subsection \<open>Which anchors become articles\<close>








subsection \<open>Deduplication in the structured tier\<close>

text \<open>
  Claim C7. The structured tier is meant to keep one article per URL: it keeps a set
  \<^verbatim>\<open>seen\<close> and adds \<^verbatim>\<open>str(item.url)\<close> to it. Its test is \<^verbatim>\<open>item.url not in seen\<close>, a URL object
  against a set of strings, which holds every time. Two \<^verbatim>\<open>article\<close> elements with the same
  link give two articles with the same URL.
\<close>

theorem extract_articles_keeps_duplicate:
  "extract_articles test_env duplicate_soup ''https://www.theblock.co/latest'' ''The Block'' 6 =
     Inr [\<lparr>NewsArticle.source = ''The Block'', title = ''First crypto update'',
            NewsArticle.url = HttpUrl ''https://www.theblock.co/post/1'', published_at = None,
            summary = None, metadata = []\<rparr>,
          \<lparr>NewsArticle.source = ''The Block'', title = ''Crypto update, again'',
            NewsArticle.url = HttpUrl ''https://www.theblock.co/post/1'', published_at = None,
            summary = None, metadata = []\<rparr>]"
  by (simp add: news_eval)

end
